theory Spec2Isabelle
  imports Complex_Main
begin

section \<open>Python values, exceptions and the string helpers the code relies on\<close>

text \<open>
  The module is Python.  Exceptions are values of \<open>error\<close>; a function that can raise
  returns a sum whose left summand carries the exception together with the state at the
  moment it was raised (mutations made before a raise are not undone in Python).

  Python floats are modelled as rationals, so the rounding of a float is outside this
  model.  A float that is an infinity or a NaN has no rational value: where \<open>float\<close>
  would return one, the model stops with \<open>NonFinite\<close>.  \<open>NonFinite\<close> is the only
  constructor of \<open>error\<close> that is not a Python exception.

  Strings are \<open>char list\<close>, a character being a code point below 256.  (The connection
  thread decodes the command channel as ASCII before a line reaches the dispatcher.)
\<close>

datatype error =
    ValueError
  | IndexError
  | TypeError
  | AttributeError
  | KeyError
  | OverflowError
  | UnicodeEncodeError
  | VIDExistsError
  | TextException
  | NonFinite

datatype pyval = PNone | PInt int | PStr string | PFloat rat

type_synonym 'a raises = "error + 'a"

text \<open>Decimal digits, and the characters for which \<open>str.isdigit()\<close> holds.\<close>

definition is_digit :: "char \<Rightarrow> bool" where
  "is_digit c = (48 \<le> (of_char c :: nat) \<and> (of_char c :: nat) \<le> 57)"

definition is_digit_like :: "char \<Rightarrow> bool" where
  "is_digit_like c = (is_digit c \<or> (of_char c :: nat) \<in> {178, 179, 185})"

definition digit_val :: "char \<Rightarrow> nat" where
  "digit_val c = (of_char c :: nat) - 48"

definition nat_of_digits :: "string \<Rightarrow> nat" where
  "nat_of_digits ds = foldl (\<lambda>n c. 10 * n + digit_val c) 0 ds"

text \<open>
  \<open>str.isdigit()\<close>: non-empty, and every character a decimal digit or one of the
  superscript digits (which \<open>int\<close> does not accept).
\<close>

definition isdigit :: "string \<Rightarrow> bool" where
  "isdigit s = (s \<noteq> [] \<and> list_all is_digit_like s)"

text \<open>White space as \<open>str.strip()\<close>, \<open>float\<close> and \<open>int\<close> see it.\<close>

definition is_space :: "char \<Rightarrow> bool" where
  "is_space c = ((of_char c :: nat) \<in> {9, 10, 11, 12, 13, 28, 29, 30, 31, 32, 133, 160})"

definition strip :: "string \<Rightarrow> string" where
  "strip s = rev (dropWhile is_space (rev (dropWhile is_space s)))"

definition lower_char :: "char \<Rightarrow> char" where
  "lower_char c =
     (if (65 \<le> (of_char c :: nat) \<and> (of_char c :: nat) \<le> 90)
         \<or> (192 \<le> (of_char c :: nat) \<and> (of_char c :: nat) \<le> 222 \<and> (of_char c :: nat) \<noteq> 215)
      then char_of ((of_char c :: nat) + 32) else c)"

definition lower :: "string \<Rightarrow> string" where
  "lower s = map lower_char s"

definition startswith :: "string \<Rightarrow> string \<Rightarrow> bool" where
  "startswith s p = (take (length p) s = p)"

text \<open>
  The numeric literals that \<open>float\<close> and \<open>int\<close> read.  A digit part is a run of decimal
  digits in which single underscores may stand between digits.  A sign is one leading
  \<open>+\<close> or \<open>-\<close>.
\<close>

fun digitpart :: "string \<Rightarrow> bool" where
  "digitpart [] = False"
| "digitpart [c] = is_digit c"
| "digitpart (c # d # cs) =
     (is_digit c \<and> (if d = CHR ''_'' then digitpart cs else digitpart (d # cs)))"

definition digits_of :: "string \<Rightarrow> string" where
  "digits_of s = filter is_digit s"

definition split_sign :: "string \<Rightarrow> bool \<times> string" where
  "split_sign s =
     (case s of
        [] \<Rightarrow> (False, [])
      | c # t \<Rightarrow> if c = CHR ''-'' then (True, t) else if c = CHR ''+'' then (False, t)
                 else (False, s))"

text \<open>
  \<open>int(s)\<close> for a string, to base ten: white space around it is dropped, then a sign and
  a digit part are read.  An interpreter with a limit on integer strings
  (\<open>sys.get_int_max_str_digits()\<close>, 4300 unless changed; \<open>0\<close> stands for no limit, as in
  interpreters that have none) refuses a text with more digits than the limit, and
  \<open>str\<close> refuses an integer with more digits than the limit; both raise \<open>ValueError\<close>.
\<close>

definition int_of_string :: "nat \<Rightarrow> string \<Rightarrow> int raises" where
  "int_of_string mx s =
     (let (neg, body) = split_sign (strip s)
      in if digitpart body then
           (if 0 < mx \<and> mx < length (digits_of body) then Inl ValueError
            else Inr ((if neg then - 1 else 1) * int (nat_of_digits (digits_of body))))
         else Inl ValueError)"

fun str_nat :: "nat \<Rightarrow> string" where
  "str_nat n =
     (if n < 10 then [char_of (48 + n)] else str_nat (n div 10) @ [char_of (48 + n mod 10)])"

declare str_nat.simps [simp del]

definition str_int :: "nat \<Rightarrow> int \<Rightarrow> string raises" where
  "str_int mx i =
     (if 0 < mx \<and> mx < length (str_nat (nat \<bar>i\<bar>)) then Inl ValueError
      else Inr (if i < 0 then CHR ''-'' # str_nat (nat (- i)) else str_nat (nat i)))"

text \<open>
  \<open>float(s)\<close> for a string: white space around it is dropped; after a sign come
  \<open>inf\<close>, \<open>infinity\<close> or \<open>nan\<close> in any case, or a number with an optional exponent.  The
  value is the exact one.  A value that a float rounds to an infinity (from
  \<open>2^1024 - 2^970\<close> on) is \<open>NonFinite\<close> like the spelled infinities; \<open>float\<close> of an
  integer that large raises \<open>OverflowError\<close>.
\<close>

definition float_mantissa :: "string \<Rightarrow> (nat \<times> nat) option" where
  "float_mantissa m =
     (let ip = takeWhile (\<lambda>c. c \<noteq> CHR ''.'') m;
          rest = dropWhile (\<lambda>c. c \<noteq> CHR ''.'') m
      in case rest of
           [] \<Rightarrow> if digitpart ip then Some (nat_of_digits (digits_of ip), 0) else None
         | _ # fp \<Rightarrow>
             if (ip = [] \<and> digitpart fp) \<or> (digitpart ip \<and> (fp = [] \<or> digitpart fp))
             then Some (nat_of_digits (digits_of (ip @ fp)), length (digits_of fp))
             else None)"

definition float_exponent :: "string \<Rightarrow> int option" where
  "float_exponent x =
     (let (neg, ds) = split_sign x
      in if digitpart ds then Some ((if neg then - 1 else 1) * int (nat_of_digits (digits_of ds)))
         else None)"

definition pow10 :: "int \<Rightarrow> rat" where
  "pow10 e = (if 0 \<le> e then 10 ^ nat e else 1 / 10 ^ nat (- e))"

definition float_limit :: rat where
  "float_limit = 2 ^ 1024 - 2 ^ 970"

definition float_of_string :: "string \<Rightarrow> rat raises" where
  "float_of_string s =
     (let (neg, body) = split_sign (strip s)
      in if lower body \<in> set [''inf'', ''infinity'', ''nan''] then Inl NonFinite
         else
           (let m = takeWhile (\<lambda>c. c \<noteq> CHR ''e'' \<and> c \<noteq> CHR ''E'') body;
                x = dropWhile (\<lambda>c. c \<noteq> CHR ''e'' \<and> c \<noteq> CHR ''E'') body
            in case float_mantissa m of
                 None \<Rightarrow> Inl ValueError
               | Some (n, k) \<Rightarrow>
                   (case (case x of [] \<Rightarrow> Some 0 | _ # et \<Rightarrow> float_exponent et) of
                      None \<Rightarrow> Inl ValueError
                    | Some e \<Rightarrow>
                        (let r = of_nat n * pow10 (e - int k)
                         in if float_limit \<le> r then Inl NonFinite
                            else Inr (if neg then - r else r)))))"

text \<open>The built-ins \<open>float(x)\<close> and \<open>int(x)\<close> on a Python value.\<close>

definition py_float :: "pyval \<Rightarrow> rat raises" where
  "py_float v =
     (case v of
        PNone \<Rightarrow> Inl TypeError
      | PInt i \<Rightarrow> if float_limit \<le> \<bar>of_int i\<bar> then Inl OverflowError else Inr (of_int i)
      | PFloat r \<Rightarrow> Inr r
      | PStr s \<Rightarrow> float_of_string s)"

definition trunc_rat :: "rat \<Rightarrow> int" where
  "trunc_rat r = (if r < 0 then - \<lfloor>- r\<rfloor> else \<lfloor>r\<rfloor>)"

definition py_int :: "nat \<Rightarrow> pyval \<Rightarrow> int raises" where
  "py_int mx v =
     (case v of
        PNone \<Rightarrow> Inl TypeError
      | PInt i \<Rightarrow> Inr i
      | PFloat r \<Rightarrow> Inr (trunc_rat r)
      | PStr s \<Rightarrow> int_of_string mx s)"

text \<open>\<open>re.split(r'[ :]', s)\<close>: cut at every blank and every colon; never empty.\<close>

fun re_split :: "string \<Rightarrow> string list" where
  "re_split [] = [[]]"
| "re_split (c # cs) =
     (if c = CHR '' '' \<or> c = CHR '':'' then [] # re_split cs
      else (case re_split cs of [] \<Rightarrow> [[c]] | p # ps \<Rightarrow> (c # p) # ps))"

section \<open>Colour temperature conversion\<close>

definition kelvin_to_level :: "rat \<Rightarrow> rat" where
  "kelvin_to_level kelvin =
     (if kelvin < 2200 then 0
      else if kelvin > 6000 then 100
      else (kelvin - 2200) / (6000 - 2200) * 100)"

definition level_to_kelvin :: "rat \<Rightarrow> rat" where
  "level_to_kelvin level =
     (if level < 0 then 2200
      else if level > 100 then 6000
      else (6000 - 2200) * level / 100 + 2200)"

section \<open>The request helper\<close>

text \<open>
  \<open>_RequestHelper\<close> keeps the list \<open>__events\<close> of \<open>threading.Event\<close> objects handed out
  and not yet released.  Events are identified by the number under which they were
  allocated.  The bodies of \<open>request\<close> and \<open>notify\<close> that touch the list run under the
  helper's lock, so each call acts atomically on the list; a history of calls is a
  sequence.
\<close>

type_synonym event = nat

record RequestHelper =
  events :: "event list"


text \<open>
  \<open>notify\<close>: the helper with its list reset, and the events on which \<open>set()\<close> is called.
\<close>

definition RequestHelper_notify :: "RequestHelper \<Rightarrow> RequestHelper \<times> event list" where
  "RequestHelper_notify h = (h\<lparr>events := []\<rparr>, events h)"








section \<open>Entities and the controller object\<close>

text \<open>
  Python objects are referred to by address.  Each class has its own heap, so a
  reference carries the class of its target: \<open>_vid_to_load\<close> holds outputs and a button's
  \<open>_keypad\<close> is a keypad or \<open>None\<close>, as the XML parser builds them.  \<open>LoadGroup\<close> is an
  \<open>Output\<close> (it adds no behaviour to updates); \<open>LightSensor\<close> and \<open>OmniSensor\<close> are
  \<open>PollingSensor\<close>s.  The records hold the attributes that the modelled methods read or
  write.
\<close>

datatype ref =
    OutputRef nat
  | ButtonRef nat
  | KeypadRef nat
  | TaskRef nat
  | VariableRef nat
  | SensorRef nat
  | ShadeRef nat

record Area =
  area_name :: string
  area_parent :: int

record Output =
  out_name :: string
  out_area :: "int option"
  out_vid :: int
  out_output_type :: string
  out_load_type :: string
  out_level :: rat
  out_color_temp :: rat
  out_rgb :: "int list"
  out_color_control_vid :: "int option"
  out_dmx_color :: bool
  out_query_waiters :: RequestHelper
  out_ramp_sec :: "rat \<times> rat \<times> rat"

record Button =
  btn_name :: string
  btn_area :: "int option"
  btn_vid :: int
  btn_num :: int
  btn_keypad :: "nat option"
  btn_value :: pyval

record Keypad =
  kp_name :: string
  kp_area :: "int option"
  kp_vid :: int
  kp_value :: pyval
  kp_extra_info :: "(string \<times> pyval) list"

record Task =
  task_name :: string
  task_area :: "int option"
  task_vid :: int

record Variable =
  var_name :: string
  var_area :: "int option"
  var_vid :: int
  var_value :: "rat option"

record PollingSensor =
  sens_name :: string
  sens_area :: "int option"
  sens_vid :: int
  sens_value :: "rat option"

record Shade =
  shade_name :: string
  shade_area :: "int option"
  shade_vid :: int
  shade_level :: "rat option"
  shade_query_waiters :: RequestHelper

text \<open>A value of the \<open>name_mappings\<close> dictionary: \<open>True\<close> (drop the area) or a new name.\<close>

datatype mapped = MTrue | MStr string

text \<open>
  The \<open>Vantage\<close> object with everything reachable from it.  \<open>_ids\<close> is keyed by a
  command type or by \<open>None\<close> (\<open>register_id\<close> is called with \<open>cmd_type2 = None\<close>).
  \<open>telnet\<close> is the session of the connection object: \<open>None\<close> before a session exists,
  otherwise the lines written so far.  Subscriber handlers are code of the caller; their
  invocation is recorded in \<open>notified\<close> (handler, argument) and their bodies are not
  modelled.  \<open>fired\<close> is the set of wait events that have been set.
  \<open>int_max_str_digits\<close> is the interpreter's setting \<open>sys.get_int_max_str_digits()\<close>.
\<close>

record Vantage =
  cmds :: "string list"
  ids :: "string option \<Rightarrow> (int \<Rightarrow> ref option) option"
  names :: "string \<Rightarrow> int option"
  subscribers :: "ref \<Rightarrow> nat option"
  name_mappings :: "(string \<times> mapped) list option"
  vid_to_area :: "int \<Rightarrow> Area option"
  vid_to_load :: "int \<Rightarrow> nat option"
  telnet :: "string list option"
  outputs :: "nat \<Rightarrow> Output"
  buttons :: "nat \<Rightarrow> Button"
  keypads :: "nat \<Rightarrow> Keypad"
  tasks :: "nat \<Rightarrow> Task"
  variables :: "nat \<Rightarrow> Variable"
  sensors :: "nat \<Rightarrow> PollingSensor"
  shades :: "nat \<Rightarrow> Shade"
  fired :: "event set"
  notified :: "(nat \<times> ref) list"
  int_max_str_digits :: nat

type_synonym 'a result = "error \<times> Vantage + 'a \<times> Vantage"

definition r_cmds :: "string list" where
  "r_cmds = [''LOGIN'', ''LOAD'', ''STATUS'', ''GETLOAD'', ''VARIABLE'', ''ERROR'',
             ''TASK'', ''GETBLIND'', ''BLIND'', ''INVOKE'', ''GETLIGHT'', ''GETPOWER'',
             ''GETCURRENT'', ''GETSENSOR'', ''ADDSTATUS'', ''DELSTATUS'', ''GETCUSTOM'',
             ''RAMPLOAD'', ''GETTEMPERATURE'']"

definition s_cmds :: "string list" where
  "s_cmds = [''LOAD'', ''TASK'', ''BTN'', ''VARIABLE'', ''BLIND'', ''STATUS'']"

subsection \<open>Sending\<close>

text \<open>
  \<open>VantageConnection.send_ascii_nl\<close>: \<open>self._telnet.write(cmd.encode('ascii') + b'\r\n')\<close>.
  The method \<open>write\<close> is looked up first, which fails on \<open>None\<close> when there is no
  session; then the command is encoded.  A transport failure during the write
  (\<open>BrokenPipeError\<close>) is an event of the environment and not modelled.
\<close>

definition send_ascii_nl :: "string \<Rightarrow> Vantage \<Rightarrow> unit result" where
  "send_ascii_nl cmd s =
     (case telnet s of
        None \<Rightarrow> Inl (AttributeError, s)
      | Some w \<Rightarrow>
          if list_ex (\<lambda>c. 128 \<le> (of_char c :: nat)) cmd then Inl (UnicodeEncodeError, s)
          else Inr ((), s\<lparr>telnet := Some (w @ [cmd @ [CHR 0x0D, CHR 0x0A]])\<rparr>))"

definition send_cmd :: "string \<Rightarrow> Vantage \<Rightarrow> unit result" where
  "send_cmd cmd s = send_ascii_nl cmd (s\<lparr>cmds := cmds s @ [cmd]\<rparr>)"

text \<open>\<open>" ".join(xs)\<close>.\<close>

fun join_sp :: "string list \<Rightarrow> string" where
  "join_sp [] = []"
| "join_sp [x] = x"
| "join_sp (x # y # ys) = x @ '' '' @ join_sp (y # ys)"

text \<open>\<open>send(op, vid, *args)\<close>, the arguments already rendered by \<open>str\<close>.\<close>

definition send :: "string \<Rightarrow> int \<Rightarrow> string list \<Rightarrow> Vantage \<Rightarrow> unit result" where
  "send opr vid args s =
     (case str_int (int_max_str_digits s) vid of
        Inl e \<Rightarrow> Inl (e, s)
      | Inr v \<Rightarrow> send_cmd (opr @ '' '' @ (v @ '' '' @ join_sp args)) s)"

section \<open>The transition functions of the entities\<close>

text \<open>
  Each \<open>handle_update\<close> returns the entity that changed (\<open>self\<close>, another entity, or
  \<open>None\<close>).  Arguments from the wire are strings; a button hands its keypad a list with
  an integer in it, so the argument list is a list of Python values.
\<close>

definition Output_notify :: "nat \<Rightarrow> Vantage \<Rightarrow> Vantage" where
  "Output_notify a s =
     (let (h, evs) = RequestHelper_notify (out_query_waiters (outputs s a))
      in s\<lparr>outputs := (outputs s)(a := (outputs s a)\<lparr>out_query_waiters := h\<rparr>),
           fired := fired s \<union> set evs\<rparr>)"

text \<open>\<open>xs[i] = v\<close> with Python's indices: negative ones count from the end.\<close>

definition list_set :: "'a list \<Rightarrow> int \<Rightarrow> 'a \<Rightarrow> 'a list option" where
  "list_set xs i v =
     (if 0 \<le> i \<and> i < int (length xs) then Some (xs[nat i := v])
      else if i < 0 \<and> - int (length xs) \<le> i then Some (xs[nat (int (length xs) + i) := v])
      else None)"

text \<open>\<open>self._vantage._vid_to_load.get(self._color_control_vid)\<close>.\<close>

definition color_load :: "Vantage \<Rightarrow> nat \<Rightarrow> nat option" where
  "color_load s a =
     (case out_color_control_vid (outputs s a) of
        None \<Rightarrow> None
      | Some ccv \<Rightarrow> vid_to_load s ccv)"

definition Output_handle_update :: "nat \<Rightarrow> pyval list \<Rightarrow> Vantage \<Rightarrow> ref option result" where
  "Output_handle_update a args s =
     (if length args = 1 then
        (case py_float (args ! 0) of
           Inl e \<Rightarrow> Inl (e, s)
         | Inr level \<Rightarrow>
             if out_output_type (outputs s a) = ''COLOR'' then
               (let color_temp = level_to_kelvin level;
                    light = color_load s a
                in case light of
                     Some l \<Rightarrow>
                       Inr (Some (OutputRef l),
                            Output_notify l
                              (s\<lparr>outputs := (outputs s)(l := (outputs s l)\<lparr>out_color_temp := color_temp\<rparr>)\<rparr>))
                   | None \<Rightarrow> Inr (Some (OutputRef a), s))
             else
               Inr (Some (OutputRef a),
                    Output_notify a
                      (s\<lparr>outputs := (outputs s)(a := (outputs s a)\<lparr>out_level := level\<rparr>)\<rparr>)))
      else
        (case args of
           [] \<Rightarrow> Inl (IndexError, s)
         | a0 # _ \<Rightarrow>
             if a0 = PStr ''RGBLoad.GetRGB'' then
               (if length args < 3 then Inl (IndexError, s)
                else case py_int (int_max_str_digits s) (args ! 1) of
                       Inl e \<Rightarrow> Inl (e, s)
                     | Inr val \<Rightarrow>
                         (case py_int (int_max_str_digits s) (args ! 2) of
                            Inl e \<Rightarrow> Inl (e, s)
                          | Inr chr \<Rightarrow>
                              (case (if chr < 3
                                     then map_option
                                            (\<lambda>rgb. s\<lparr>outputs := (outputs s)(a := (outputs s a)\<lparr>out_rgb := rgb\<rparr>)\<rparr>)
                                            (list_set (out_rgb (outputs s a)) chr val)
                                     else Some s) of
                                 None \<Rightarrow> Inl (IndexError, s)
                               | Some s1 \<Rightarrow>
                                   Inr (Some (OutputRef a),
                                        if chr = 2 then Output_notify a s1 else s1))))
             else Inr (Some (OutputRef a), s)))"

definition Variable_handle_update :: "nat \<Rightarrow> pyval list \<Rightarrow> Vantage \<Rightarrow> ref option result" where
  "Variable_handle_update a args s =
     (case args of
        [] \<Rightarrow> Inl (IndexError, s)
      | a0 # _ \<Rightarrow>
          (case py_float a0 of
             Inl e \<Rightarrow> Inl (e, s)
           | Inr v \<Rightarrow>
               Inr (Some (VariableRef a),
                    s\<lparr>variables := (variables s)(a := (variables s a)\<lparr>var_value := Some v\<rparr>)\<rparr>)))"

definition PollingSensor_handle_update :: "nat \<Rightarrow> pyval list \<Rightarrow> Vantage \<Rightarrow> ref option result" where
  "PollingSensor_handle_update a args s =
     (case args of
        [] \<Rightarrow> Inl (IndexError, s)
      | a0 # _ \<Rightarrow>
          (case py_float a0 of
             Inl e \<Rightarrow> Inl (e, s)
           | Inr v \<Rightarrow>
               Inr (Some (SensorRef a),
                    s\<lparr>sensors := (sensors s)(a := (sensors s a)\<lparr>sens_value := Some v\<rparr>)\<rparr>)))"

text \<open>The list comprehension \<open>[int(x) for x in xs]\<close>, stopping at the first failure.\<close>

fun py_int_all :: "nat \<Rightarrow> pyval list \<Rightarrow> int list raises" where
  "py_int_all mx [] = Inr []"
| "py_int_all mx (x # xs) =
     (case py_int mx x of
        Inl e \<Rightarrow> Inl e
      | Inr i \<Rightarrow> (case py_int_all mx xs of Inl e \<Rightarrow> Inl e | Inr is \<Rightarrow> Inr (i # is)))"

definition Task_handle_update :: "nat \<Rightarrow> pyval list \<Rightarrow> Vantage \<Rightarrow> ref option result" where
  "Task_handle_update a args s =
     (case args of
        [] \<Rightarrow> Inl (IndexError, s)
      | a0 # rest \<Rightarrow>
          (case py_int (int_max_str_digits s) a0 of
             Inl e \<Rightarrow> Inl (e, s)
           | Inr component \<Rightarrow>
               (case rest of
                  [] \<Rightarrow> Inl (IndexError, s)
                | a1 # params \<Rightarrow>
                    (case py_int (int_max_str_digits s) a1 of
                       Inl e \<Rightarrow> Inl (e, s)
                     | Inr action \<Rightarrow>
                         (case py_int_all (int_max_str_digits s) params of
                            Inl e \<Rightarrow> Inl (e, s)
                          | Inr _ \<Rightarrow> Inr (Some (TaskRef a), s))))))"

definition Shade_handle_update :: "nat \<Rightarrow> pyval list \<Rightarrow> Vantage \<Rightarrow> ref option result" where
  "Shade_handle_update a args s =
     (case args of
        [] \<Rightarrow> Inl (IndexError, s)
      | a0 # rest \<Rightarrow>
          (case (if a0 = PStr ''OPEN'' then Inr (Some 100)
                 else if a0 = PStr ''CLOSE'' then Inr (Some 0)
                 else if a0 = PStr ''STOP'' then Inr None
                 else if a0 = PStr ''POS'' then
                   (case rest of
                      [] \<Rightarrow> Inl IndexError
                    | a1 # _ \<Rightarrow> map_sum id Some (py_float a1))
                 else map_sum id Some (py_float a0)) of
             Inl e \<Rightarrow> Inl (e, s)
           | Inr v \<Rightarrow>
               Inr (Some (ShadeRef a),
                    s\<lparr>shades := (shades s)(a := (shades s a)\<lparr>shade_level := v\<rparr>)\<rparr>)))"

text \<open>
  \<open>Keypad.handle_update\<close>: \<open>_value\<close> is assigned before \<open>args[1]\<close> and \<open>args[2]\<close> are
  read, and \<open>_extra_info\<close> is replaced by a new dictionary with the two keys.
\<close>

definition Keypad_handle_update :: "nat \<Rightarrow> pyval list \<Rightarrow> Vantage \<Rightarrow> ref option result" where
  "Keypad_handle_update a args s =
     (case args of
        [] \<Rightarrow> Inl (IndexError, s)
      | a0 # _ \<Rightarrow>
          (let s1 = s\<lparr>keypads := (keypads s)(a := (keypads s a)\<lparr>kp_value := a0\<rparr>)\<rparr>
           in if length args < 3 then Inl (IndexError, s1)
              else
                Inr (Some (KeypadRef a),
                     s1\<lparr>keypads := (keypads s1)
                           (a := (keypads s1 a)
                              \<lparr>kp_extra_info :=
                                 [(''button_name'', args ! 1), (''button_action'', args ! 2)]\<rparr>)\<rparr>)))"

text \<open>
  The second half of \<open>handle_update_and_notify\<close>: if something was handled and it has a
  subscriber, the subscriber's handler is called with it.
\<close>

definition notify_subscriber :: "ref option \<Rightarrow> Vantage \<Rightarrow> Vantage" where
  "notify_subscriber handled s =
     (case handled of
        None \<Rightarrow> s
      | Some h \<Rightarrow>
          (case subscribers s h of
             None \<Rightarrow> s
           | Some f \<Rightarrow> s\<lparr>notified := notified s @ [(f, h)]\<rparr>))"

definition and_notify :: "ref option result \<Rightarrow> unit result" where
  "and_notify r =
     (case r of
        Inl x \<Rightarrow> Inl x
      | Inr (handled, s) \<Rightarrow> Inr ((), notify_subscriber handled s))"

text \<open>
  \<open>Button.handle_update\<close>.  With a keypad the button stores the action and calls
  \<open>handle_update_and_notify\<close> on the keypad with \<open>[num, name, value]\<close>; since \<open>_keypad\<close>
  is a keypad, the call runs \<open>Keypad.handle_update\<close> and then notifies.  In both
  branches the method returns the button itself.
\<close>

definition Button_handle_update :: "nat \<Rightarrow> pyval list \<Rightarrow> Vantage \<Rightarrow> ref option result" where
  "Button_handle_update a args s =
     (case args of
        [] \<Rightarrow> Inl (IndexError, s)
      | action # _ \<Rightarrow>
          (case btn_keypad (buttons s a) of
             Some kp \<Rightarrow>
               (let s1 = s\<lparr>buttons := (buttons s)(a := (buttons s a)\<lparr>btn_value := action\<rparr>)\<rparr>
                in case and_notify
                          (Keypad_handle_update kp
                             [PInt (btn_num (buttons s1 a)), PStr (btn_name (buttons s1 a)),
                              btn_value (buttons s1 a)] s1) of
                     Inl x \<Rightarrow> Inl x
                   | Inr (_, s2) \<Rightarrow> Inr (Some (ButtonRef a), s2))
           | None \<Rightarrow>
               Inr (Some (ButtonRef a),
                    s\<lparr>buttons := (buttons s)
                         (a := (buttons s a)
                            \<lparr>btn_value :=
                               (if action = PStr ''PRESS'' then PStr ''Violated''
                                else if action = PStr ''RELEASE'' then PStr ''Normal''
                                else action)\<rparr>)\<rparr>)))"

text \<open>Dynamic dispatch of \<open>obj.handle_update(args)\<close> on the class of \<open>obj\<close>.\<close>

fun handle_update :: "ref \<Rightarrow> pyval list \<Rightarrow> Vantage \<Rightarrow> ref option result" where
  "handle_update (OutputRef a) args s = Output_handle_update a args s"
| "handle_update (ButtonRef a) args s = Button_handle_update a args s"
| "handle_update (KeypadRef a) args s = Keypad_handle_update a args s"
| "handle_update (TaskRef a) args s = Task_handle_update a args s"
| "handle_update (VariableRef a) args s = Variable_handle_update a args s"
| "handle_update (SensorRef a) args s = PollingSensor_handle_update a args s"
| "handle_update (ShadeRef a) args s = Shade_handle_update a args s"

definition handle_update_and_notify :: "ref \<Rightarrow> pyval list \<Rightarrow> Vantage \<Rightarrow> unit result" where
  "handle_update_and_notify obj args s = and_notify (handle_update obj args s)"

section \<open>The dispatcher\<close>

text \<open>
  \<open>Vantage._recv\<close> is split at its last statement.  \<open>recv_route\<close> is everything up to
  the call of \<open>handle_update_and_notify\<close>: it raises, returns without calling it
  (\<open>Dropped\<close>), or reaches the call with an object and the argument list (\<open>Deliver\<close>).
  An entity's \<open>handle_update\<close> is invoked by \<open>_recv\<close> exactly in the \<open>Deliver\<close> outcome.
  Log output is not part of the state.
\<close>

datatype routed = Raised error Vantage | Dropped Vantage | Deliver ref "pyval list" Vantage

definition pop_cmd :: "Vantage \<Rightarrow> Vantage" where
  "pop_cmd s = (case cmds s of [] \<Rightarrow> s | _ # rest \<Rightarrow> s\<lparr>cmds := rest\<rparr>)"

text \<open>
  Lines 834 to 852: the lookup in \<open>_ids\<close> under the canonical command type.  The VID
  token is tested with \<open>isdigit()\<close> and then converted with \<open>int\<close>, which can still
  refuse it.
\<close>

definition recv_lookup :: "char \<Rightarrow> string \<Rightarrow> string \<Rightarrow> string list \<Rightarrow> Vantage \<Rightarrow> routed" where
  "recv_lookup tp cmd_type vid args s =
     (case ids s (Some cmd_type) of
        None \<Rightarrow> Dropped s
      | Some m \<Rightarrow>
          if isdigit vid then
            (case int_of_string (int_max_str_digits s) vid of
               Inl e \<Rightarrow> Raised e s
             | Inr v \<Rightarrow>
                 (case m v of
                    None \<Rightarrow> Dropped s
                  | Some obj \<Rightarrow>
                      if tp = CHR ''S'' \<or>
                         (tp = CHR ''R'' \<and>
                          cmd_type \<in> set [''LOAD'', ''POWER'', ''CURRENT'', ''SENSOR'', ''LIGHT''])
                      then Deliver obj (map PStr args) s
                      else Dropped s))
          else Dropped s)"

definition recv_route :: "string \<Rightarrow> Vantage \<Rightarrow> routed" where
  "recv_route line s =
     (if line = [] then Dropped s
      else if hd line \<noteq> CHR ''R'' \<and> hd line \<noteq> CHR ''S'' then Dropped s
      else
        (let tp = hd line;
             allowed = (if tp = CHR ''R'' then r_cmds else s_cmds);
             s1 = (if tp = CHR ''R'' then pop_cmd s else s)
         in case re_split (drop 2 line) of
              [] \<Rightarrow> Raised IndexError s1
            | [_] \<Rightarrow> Raised IndexError s1
            | cmd_type # vid # args \<Rightarrow>
                if cmd_type \<notin> set allowed then Dropped s1
                else if cmd_type = ''LOGIN'' then Dropped s1
                else if tp = CHR ''R'' \<and>
                        cmd_type \<in> set [''STATUS'', ''ADDSTATUS'', ''DELSTATUS'', ''INVOKE'',
                                         ''GETCUSTOM'', ''RAMPLOAD'', ''GETTEMPERATURE'']
                then Dropped s1
                else if tp = CHR ''R'' \<and> cmd_type = ''ERROR'' then Dropped s1
                else if cmd_type = ''ERROR'' then Dropped s1
                else if cmd_type \<in> set [''GETLOAD'', ''GETPOWER'', ''GETCURRENT'', ''GETSENSOR'',
                                           ''GETLIGHT'']
                then recv_lookup tp (drop 3 cmd_type) vid args s1
                else if cmd_type = ''GETBLIND'' then Dropped s1
                else if cmd_type = ''TASK'' then Dropped s1
                else recv_lookup tp cmd_type vid args s1))"

definition recv :: "string \<Rightarrow> Vantage \<Rightarrow> unit result" where
  "recv line s =
     (case recv_route line s of
        Raised e s' \<Rightarrow> Inl (e, s')
      | Dropped s' \<Rightarrow> Inr ((), s')
      | Deliver obj args s' \<Rightarrow> handle_update_and_notify obj args s')"

text \<open>
  Two notions for stating what \<open>_recv\<close> does with a tokenised line: the canonical
  command type (the \<open>GET\<close> prefix of the five query types removed), and whether a line
  of kind \<open>tp\<close> with command type \<open>c\<close> gets as far as the lookup, that is, passes
  every \<open>return\<close> of lines 802 to 830.
\<close>

definition canonical_type :: "string \<Rightarrow> string" where
  "canonical_type c =
     (if c \<in> set [''GETLOAD'', ''GETPOWER'', ''GETCURRENT'', ''GETSENSOR'', ''GETLIGHT'']
      then drop 3 c else c)"

definition reaches_lookup :: "char \<Rightarrow> string \<Rightarrow> bool" where
  "reaches_lookup tp c =
     (c \<in> set (if tp = CHR ''R'' then r_cmds else s_cmds)
      \<and> c \<noteq> ''LOGIN''
      \<and> \<not> (tp = CHR ''R'' \<and>
             c \<in> set [''STATUS'', ''ADDSTATUS'', ''DELSTATUS'', ''INVOKE'', ''GETCUSTOM'',
                        ''RAMPLOAD'', ''GETTEMPERATURE''])
      \<and> c \<noteq> ''ERROR''
      \<and> c \<noteq> ''GETBLIND''
      \<and> c \<noteq> ''TASK'')"

section \<open>Registration\<close>

fun obj_vid :: "Vantage \<Rightarrow> ref \<Rightarrow> int" where
  "obj_vid s (OutputRef a) = out_vid (outputs s a)"
| "obj_vid s (ButtonRef a) = btn_vid (buttons s a)"
| "obj_vid s (KeypadRef a) = kp_vid (keypads s a)"
| "obj_vid s (TaskRef a) = task_vid (tasks s a)"
| "obj_vid s (VariableRef a) = var_vid (variables s a)"
| "obj_vid s (SensorRef a) = sens_vid (sensors s a)"
| "obj_vid s (ShadeRef a) = shade_vid (shades s a)"

fun obj_area :: "Vantage \<Rightarrow> ref \<Rightarrow> int option" where
  "obj_area s (OutputRef a) = out_area (outputs s a)"
| "obj_area s (ButtonRef a) = btn_area (buttons s a)"
| "obj_area s (KeypadRef a) = kp_area (keypads s a)"
| "obj_area s (TaskRef a) = task_area (tasks s a)"
| "obj_area s (VariableRef a) = var_area (variables s a)"
| "obj_area s (SensorRef a) = sens_area (sensors s a)"
| "obj_area s (ShadeRef a) = shade_area (shades s a)"

fun obj_name :: "Vantage \<Rightarrow> ref \<Rightarrow> string" where
  "obj_name s (OutputRef a) = out_name (outputs s a)"
| "obj_name s (ButtonRef a) = btn_name (buttons s a)"
| "obj_name s (KeypadRef a) = kp_name (keypads s a)"
| "obj_name s (TaskRef a) = task_name (tasks s a)"
| "obj_name s (VariableRef a) = var_name (variables s a)"
| "obj_name s (SensorRef a) = sens_name (sensors s a)"
| "obj_name s (ShadeRef a) = shade_name (shades s a)"

fun set_obj_name :: "ref \<Rightarrow> string \<Rightarrow> Vantage \<Rightarrow> Vantage" where
  "set_obj_name (OutputRef a) n s = s\<lparr>outputs := (outputs s)(a := (outputs s a)\<lparr>out_name := n\<rparr>)\<rparr>"
| "set_obj_name (ButtonRef a) n s = s\<lparr>buttons := (buttons s)(a := (buttons s a)\<lparr>btn_name := n\<rparr>)\<rparr>"
| "set_obj_name (KeypadRef a) n s = s\<lparr>keypads := (keypads s)(a := (keypads s a)\<lparr>kp_name := n\<rparr>)\<rparr>"
| "set_obj_name (TaskRef a) n s = s\<lparr>tasks := (tasks s)(a := (tasks s a)\<lparr>task_name := n\<rparr>)\<rparr>"
| "set_obj_name (VariableRef a) n s = s\<lparr>variables := (variables s)(a := (variables s a)\<lparr>var_name := n\<rparr>)\<rparr>"
| "set_obj_name (SensorRef a) n s = s\<lparr>sensors := (sensors s)(a := (sensors s a)\<lparr>sens_name := n\<rparr>)\<rparr>"
| "set_obj_name (ShadeRef a) n s = s\<lparr>shades := (shades s)(a := (shades s a)\<lparr>shade_name := n\<rparr>)\<rparr>"

text \<open>The loop of \<open>get_lineage_from_obj\<close>: at most ten hops towards the root area.\<close>

function lineage_loop ::
  "(int \<Rightarrow> Area option) \<Rightarrow> Area option \<Rightarrow> nat \<Rightarrow> string list \<Rightarrow> string list" where
  "lineage_loop areas area count answer =
     (case area of
        None \<Rightarrow> answer
      | Some a \<Rightarrow>
          if count < 10 then
            (if area_parent a = 0 then answer
             else (case areas (area_parent a) of
                     None \<Rightarrow> lineage_loop areas None (Suc count) answer
                   | Some b \<Rightarrow> lineage_loop areas (Some b) (Suc count) (answer @ [area_name b])))
          else answer)"
  by pat_completeness auto
termination
  by (relation "measure (\<lambda>(areas, area, count, answer). 10 - count)") auto

definition get_lineage_from_obj :: "Vantage \<Rightarrow> ref \<Rightarrow> string list" where
  "get_lineage_from_obj s obj =
     (case (case obj_area s obj of None \<Rightarrow> None | Some v \<Rightarrow> vid_to_area s v) of
        None \<Rightarrow> []
      | Some a \<Rightarrow> lineage_loop (vid_to_area s) (Some a) 0 [area_name a])"

text \<open>
  The loop over \<open>reversed(lineage[:-1])\<close> that builds the area prefix of a name.
\<close>

fun name_prefix :: "(string \<times> mapped) list option \<Rightarrow> string list \<Rightarrow> string \<Rightarrow> string" where
  "name_prefix nm [] name = name"
| "name_prefix nm (n # rest) name =
     (let ns = strip n
      in if startswith ns ''Station Load '' then name_prefix nm rest name
         else if startswith ns ''Color Load '' then name_prefix nm rest name
         else
           (case (case nm of
                    None \<Rightarrow> None
                  | Some d \<Rightarrow> if d = [] then None else map_of d (lower ns)) of
              None \<Rightarrow> name_prefix nm rest (name @ ns @ ''-'')
            | Some MTrue \<Rightarrow> name_prefix nm rest name
            | Some (MStr mapped_name) \<Rightarrow> name_prefix nm rest (name @ mapped_name @ ''-'')))"

text \<open>\<open>dict.setdefault(k, {})\<close> on \<open>_ids\<close>: the dictionary found or inserted.\<close>

definition setdefault_ids :: "string option \<Rightarrow> Vantage \<Rightarrow> (int \<Rightarrow> ref option) \<times> Vantage" where
  "setdefault_ids k s =
     (case ids s k of
        None \<Rightarrow> (Map.empty, s\<lparr>ids := (ids s)(k \<mapsto> Map.empty)\<rparr>)
      | Some m \<Rightarrow> (m, s))"

text \<open>\<open>self._ids[k][vid] = obj\<close>.\<close>

definition ids_store :: "string option \<Rightarrow> int \<Rightarrow> ref \<Rightarrow> Vantage \<Rightarrow> Vantage raises" where
  "ids_store k vid obj s =
     (case ids s k of
        None \<Rightarrow> Inl KeyError
      | Some m \<Rightarrow> Inr (s\<lparr>ids := (ids s)(k \<mapsto> m(vid \<mapsto> obj))\<rparr>))"

text \<open>
  \<open>register_id\<close>.  The variable \<open>ids\<close> is assigned twice, so the membership test reads
  the dictionary of \<open>cmd_type2\<close>.
\<close>

definition register_names :: "ref \<Rightarrow> Vantage \<Rightarrow> unit result" where
  "register_names obj s =
     (let lineage = get_lineage_from_obj s obj;
          name = name_prefix (name_mappings s) (rev (butlast lineage)) [];
          old = obj_name s obj;
          s1 = (if startswith old (butlast name)
                then set_obj_name obj (name @ drop (length name) old) s
                else set_obj_name obj (name @ old) s)
      in case (if names s1 (obj_name s1 obj) \<noteq> None
               then (case str_int (int_max_str_digits s1) (obj_vid s1 obj) of
                       Inl e \<Rightarrow> Inl (e, s1)
                     | Inr v \<Rightarrow> Inr (set_obj_name obj (obj_name s1 obj @ '' ('' @ v @ '')'') s1))
               else Inr s1) of
           Inl x \<Rightarrow> Inl x
         | Inr s2 \<Rightarrow> Inr ((), s2\<lparr>names := (names s2)(obj_name s2 obj \<mapsto> obj_vid s2 obj)\<rparr>))"

text \<open>
  The exception's message is built with \<open>"VID exists %s" % obj.vid\<close> before it is raised,
  so \<open>str\<close> of the VID is taken first.
\<close>

definition register_id :: "string \<Rightarrow> string option \<Rightarrow> ref \<Rightarrow> Vantage \<Rightarrow> unit result" where
  "register_id cmd_type cmd_type2 obj s =
     (let (ids0, s1) = setdefault_ids (Some cmd_type) s;
          (ids1, s2) = setdefault_ids cmd_type2 s1
      in if ids1 (obj_vid s2 obj) \<noteq> None then
           (case str_int (int_max_str_digits s2) (obj_vid s2 obj) of
              Inl e \<Rightarrow> Inl (e, s2)
            | Inr _ \<Rightarrow> Inl (VIDExistsError, s2))
         else
           (case ids_store (Some cmd_type) (obj_vid s2 obj) obj s2 of
              Inl e \<Rightarrow> Inl (e, s2)
            | Inr s3 \<Rightarrow>
                (case (if cmd_type2 \<noteq> None \<and> cmd_type2 \<noteq> Some []
                       then ids_store cmd_type2 (obj_vid s3 obj) obj s3
                       else Inr s3) of
                   Inl e \<Rightarrow> Inl (e, s3)
                 | Inr s4 \<Rightarrow> register_names obj s4)))"

section \<open>Setters\<close>

text \<open>
  \<open>re.match(r'^\d+$', v)\<close>: decimal digits up to the end, or up to a final newline.
  \<open>re.match(r'["\n\r]', v)\<close>: \<open>match\<close> looks at the start of the string only.
\<close>

definition num_match :: "string \<Rightarrow> bool" where
  "num_match v =
     ((v \<noteq> [] \<and> list_all is_digit v)
      \<or> (butlast v \<noteq> [] \<and> last v = CHR 0x0A \<and> list_all is_digit (butlast v)))"

definition p_match :: "string \<Rightarrow> bool" where
  "p_match v = (v \<noteq> [] \<and> hd v \<in> set [CHR 0x22, CHR 0x0A, CHR 0x0D])"

definition set_variable_vid :: "int \<Rightarrow> pyval \<Rightarrow> Vantage \<Rightarrow> unit result" where
  "set_variable_vid vid v s =
     (case v of
        PInt i \<Rightarrow>
          (case str_int (int_max_str_digits s) vid of
             Inl e \<Rightarrow> Inl (e, s)
           | Inr vs \<Rightarrow>
               (case str_int (int_max_str_digits s) i of
                  Inl e \<Rightarrow> Inl (e, s)
                | Inr x \<Rightarrow> send_cmd (''VARIABLE '' @ vs @ '' '' @ x) s))
      | PStr x \<Rightarrow>
          if num_match x then
            (case str_int (int_max_str_digits s) vid of
               Inl e \<Rightarrow> Inl (e, s)
             | Inr vs \<Rightarrow> send_cmd (''VARIABLE '' @ vs @ '' '' @ x) s)
          else if p_match x then Inl (TextException, s)
          else
            (case str_int (int_max_str_digits s) vid of
               Inl e \<Rightarrow> Inl (e, s)
             | Inr vs \<Rightarrow> send_cmd (''VARIABLE '' @ vs @ [CHR '' '', CHR 0x22] @ x @ [CHR 0x22]) s)
      | PNone \<Rightarrow> Inl (TypeError, s)
      | PFloat r \<Rightarrow> Inl (TypeError, s))"

text \<open>
  The setter of \<open>Output.level\<close>.  \<open>str\<close> of a float is not determined by the rational
  that models it; the rendering is the parameter \<open>str_float\<close>.
\<close>

definition Output_set_level :: "(rat \<Rightarrow> string) \<Rightarrow> nat \<Rightarrow> rat \<Rightarrow> Vantage \<Rightarrow> unit result" where
  "Output_set_level str_float a new_level s =
     (if out_level (outputs s a) = new_level then Inr ((), s)
      else
        (let ramp_sec = (if new_level = 0 then fst (snd (out_ramp_sec (outputs s a)))
                         else fst (out_ramp_sec (outputs s a)))
         in case send ''RAMPLOAD'' (out_vid (outputs s a))
                   [str_float new_level, str_float ramp_sec] s of
              Inl x \<Rightarrow> Inl x
            | Inr (_, s1) \<Rightarrow>
                Inr ((), s1\<lparr>outputs := (outputs s1)(a := (outputs s1 a)\<lparr>out_level := new_level\<rparr>)\<rparr>)))"

section \<open>Observing results, the initial objects and an example installation\<close>

definition outcome :: "'a result \<Rightarrow> 'a raises" where
  "outcome r = map_sum fst fst r"

definition final :: "'a result \<Rightarrow> Vantage" where
  "final r = (case r of Inl (e, s) \<Rightarrow> s | Inr (x, s) \<Rightarrow> s)"

text \<open>\<open>self._ids[k].get(vid)\<close>, for reading the registry in statements.\<close>

definition ids_get :: "Vantage \<Rightarrow> string option \<Rightarrow> int \<Rightarrow> ref option" where
  "ids_get s k vid = (case ids s k of None \<Rightarrow> None | Some m \<Rightarrow> m vid)"

text \<open>The attribute values that the constructors assign (before they register).\<close>

definition new_helper :: RequestHelper where
  "new_helper = \<lparr>events = []\<rparr>"

definition new_output ::
  "string \<Rightarrow> int option \<Rightarrow> string \<Rightarrow> string \<Rightarrow> int option \<Rightarrow> bool \<Rightarrow> int \<Rightarrow> Output" where
  "new_output name area output_type load_type cc_vid dmx_color vid =
     \<lparr>out_name = name, out_area = area, out_vid = vid, out_output_type = output_type,
      out_load_type = load_type, out_level = 0, out_color_temp = 2700, out_rgb = [0, 0, 0],
      out_color_control_vid = cc_vid, out_dmx_color = dmx_color,
      out_query_waiters = new_helper, out_ramp_sec = (0, 0, 0)\<rparr>"

definition new_button :: "string \<Rightarrow> int option \<Rightarrow> int \<Rightarrow> int \<Rightarrow> nat option \<Rightarrow> Button" where
  "new_button name area vid num keypad =
     \<lparr>btn_name = name, btn_area = area, btn_vid = vid, btn_num = num, btn_keypad = keypad,
      btn_value = PNone\<rparr>"

definition new_keypad :: "string \<Rightarrow> int option \<Rightarrow> int \<Rightarrow> Keypad" where
  "new_keypad name area vid =
     \<lparr>kp_name = name, kp_area = area, kp_vid = vid, kp_value = PNone, kp_extra_info = []\<rparr>"

definition new_task :: "string \<Rightarrow> int \<Rightarrow> Task" where
  "new_task name vid = \<lparr>task_name = name, task_area = Some 0, task_vid = vid\<rparr>"

definition new_variable :: "string \<Rightarrow> int \<Rightarrow> Variable" where
  "new_variable name vid = \<lparr>var_name = name, var_area = None, var_vid = vid, var_value = None\<rparr>"

definition new_sensor :: "string \<Rightarrow> int option \<Rightarrow> int \<Rightarrow> PollingSensor" where
  "new_sensor name area vid =
     \<lparr>sens_name = name, sens_area = area, sens_vid = vid, sens_value = None\<rparr>"

definition new_shade :: "string \<Rightarrow> int option \<Rightarrow> int \<Rightarrow> Shade" where
  "new_shade name area vid =
     \<lparr>shade_name = name, shade_area = area, shade_vid = vid, shade_level = Some 100,
      shade_query_waiters = new_helper\<rparr>"

text \<open>
  A small installation, as the loader would leave it: a dimmable load (VID 101) with a
  waiter pending, its colour controller (VID 102), a colour controller whose load was
  not found (VID 103, \<open>cc_vid = None\<close>), a second object that claims VID 101, a keypad
  (VID 20) with button 3 (VID 21), a dry contact (VID 22), a variable (VID 5), a task
  (VID 7), a shade (VID 50) and a light sensor (VID 60).  Every entity has a subscriber.
  A session is open, one command is pending, and the interpreter has the usual limit of
  4300 digits.
\<close>

definition demo :: Vantage where
  "demo =
     \<lparr>cmds = [''GETLOAD 101''],
      ids = [Some ''LOAD'' \<mapsto> [101 \<mapsto> OutputRef 0, 102 \<mapsto> OutputRef 1, 103 \<mapsto> OutputRef 2],
             Some ''BTN'' \<mapsto> [21 \<mapsto> ButtonRef 0, 22 \<mapsto> ButtonRef 1],
             Some ''KEYPAD'' \<mapsto> [20 \<mapsto> KeypadRef 0],
             Some ''VARIABLE'' \<mapsto> [5 \<mapsto> VariableRef 0],
             Some ''TASK'' \<mapsto> [7 \<mapsto> TaskRef 0],
             Some ''BLIND'' \<mapsto> [50 \<mapsto> ShadeRef 0],
             Some ''LIGHT'' \<mapsto> [60 \<mapsto> SensorRef 0],
             None \<mapsto> Map.empty],
      names = [''Lamp'' \<mapsto> 101, ''Lamp COLOR'' \<mapsto> 102, ''Spot COLOR'' \<mapsto> 103,
               ''Up [B]'' \<mapsto> 21, ''Door [C]'' \<mapsto> 22, ''Hall [K]'' \<mapsto> 20,
               ''Mode'' \<mapsto> 5, ''Scene'' \<mapsto> 7, ''Blind'' \<mapsto> 50, ''Lux'' \<mapsto> 60],
      subscribers = (\<lambda>r. Some 0),
      name_mappings = None,
      vid_to_area = Map.empty,
      vid_to_load = [101 \<mapsto> 0, 102 \<mapsto> 1, 103 \<mapsto> 2],
      telnet = Some [],
      outputs = (\<lambda>_. new_output ''Lamp'' None ''LIGHT'' ''Incandescent'' None False 101)
        (0 := (new_output ''Lamp'' None ''LIGHT'' ''Incandescent'' (Some 102) False 101)
                \<lparr>out_query_waiters := \<lparr>events = [4]\<rparr>\<rparr>,
         1 := new_output ''Lamp COLOR'' None ''COLOR'' ''HID'' (Some 101) False 102,
         2 := new_output ''Spot COLOR'' None ''COLOR'' ''HID'' None False 103),
      buttons = (\<lambda>_. new_button ''Door [C]'' (Some (- 1)) 22 0 None)
        (0 := new_button ''Up [B]'' None 21 3 (Some 0)),
      keypads = (\<lambda>_. new_keypad ''Hall [K]'' None 20),
      tasks = (\<lambda>_. new_task ''Scene'' 7),
      variables = (\<lambda>_. new_variable ''Mode'' 5),
      sensors = (\<lambda>_. new_sensor ''Lux'' None 60),
      shades = (\<lambda>_. new_shade ''Blind'' None 50),
      fired = {},
      notified = [],
      int_max_str_digits = 4300\<rparr>"

section \<open>Theorems\<close>

subsection \<open>Colour temperature round trip\<close>

text \<open>
  C9.  For every kelvin value \<open>k\<close> in [2200, 6000] converting to a level and back gives
  \<open>k\<close> again (exactly, over the rationals); below 2200 the level is 0, above 6000 it is
  100, and the level always lies in [0, 100].
\<close>

theorem kelvin_level_roundtrip:
  "(2200 \<le> k \<and> k \<le> 6000 \<longrightarrow> level_to_kelvin (kelvin_to_level k) = k)
   \<and> (k < 2200 \<longrightarrow> kelvin_to_level k = 0)
   \<and> (k > 6000 \<longrightarrow> kelvin_to_level k = 100)
   \<and> 0 \<le> kelvin_to_level k \<and> kelvin_to_level k \<le> 100"
proof -
  have in_range: "level_to_kelvin (kelvin_to_level k) = k" if "2200 \<le> k" "k \<le> 6000"
  proof -
    have lv: "kelvin_to_level k = (k - 2200) / 38"
      using that by (simp add: kelvin_to_level_def)
    have "0 \<le> (k - 2200) / 38" "(k - 2200) / 38 \<le> 100"
      using that by simp_all
    then show ?thesis
      unfolding lv by (simp add: level_to_kelvin_def field_simps)
  qed
  have bounds: "0 \<le> kelvin_to_level k \<and> kelvin_to_level k \<le> 100"
    by (simp add: kelvin_to_level_def)
  show ?thesis
    using in_range bounds by (simp add: kelvin_to_level_def)
qed

theorem kelvin_level_roundtrip_witness:
  "level_to_kelvin (kelvin_to_level 3150) = 3150
   \<and> kelvin_to_level 1000 = 0
   \<and> kelvin_to_level 7000 = 100
   \<and> kelvin_to_level 3150 = 25"
  using kelvin_level_roundtrip [of 3150] kelvin_level_roundtrip [of 1000]
    kelvin_level_roundtrip [of 7000]
  by (simp add: kelvin_to_level_def)

subsection \<open>Evaluation facts for the example installation\<close>

lemmas demo_defs = demo_def new_output_def new_button_def new_keypad_def new_task_def
  new_variable_def new_sensor_def new_shade_def new_helper_def

lemma demo_ids:
  "ids demo (Some ''LOAD'') = Some [101 \<mapsto> OutputRef 0, 102 \<mapsto> OutputRef 1, 103 \<mapsto> OutputRef 2]"
  "ids demo (Some ''BTN'') = Some [21 \<mapsto> ButtonRef 0, 22 \<mapsto> ButtonRef 1]"
  "ids demo (Some ''VARIABLE'') = Some [5 \<mapsto> VariableRef 0]"
  "ids demo (Some ''TASK'') = Some [7 \<mapsto> TaskRef 0]"
  "ids demo (Some ''BLIND'') = Some [50 \<mapsto> ShadeRef 0]"
  "ids demo (Some ''LIGHT'') = Some [60 \<mapsto> SensorRef 0]"
  "ids demo None = Some Map.empty"
  by (simp_all add: demo_def)

lemma demo_limit: "int_max_str_digits demo = 4300"
  by (simp add: demo_def)

lemma py_float_50: "py_float (PStr ''50'') = Inr 50"
  by code_simp

lemma py_float_150: "py_float (PStr ''150'') = Inr 150"
  by code_simp

lemma py_float_abc: "py_float (PStr ''abc'') = Inl ValueError"
  by code_simp

lemma demo_vids:
  "isdigit ''101''" "int_of_string 4300 ''101'' = Inr 101"
  "isdigit ''999''" "int_of_string 4300 ''999'' = Inr 999"
  "isdigit ''5''" "int_of_string 4300 ''5'' = Inr 5"
  "isdigit ''7''" "int_of_string 4300 ''7'' = Inr 7"
  "isdigit ''21''" "int_of_string 4300 ''21'' = Inr 21"
  "isdigit ''50''" "int_of_string 4300 ''50'' = Inr 50"
  "isdigit ''60''" "int_of_string 4300 ''60'' = Inr 60"
  "\<not> isdigit ''abc''"
  by code_simp+

lemma str_int_demo: "str_int 4300 5 = Inr ''5''" "str_int 4300 101 = Inr ''101''"
  by code_simp+

lemma demo_ids_get:
  "ids_get demo (Some ''LOAD'') 101 = Some (OutputRef 0)"
  "ids_get demo (Some ''LOAD'') 999 = None"
  "ids_get demo (Some ''VARIABLE'') 5 = Some (VariableRef 0)"
  "ids_get demo (Some ''TASK'') 7 = Some (TaskRef 0)"
  "ids_get demo (Some ''BTN'') 21 = Some (ButtonRef 0)"
  "ids_get demo (Some ''BLIND'') 50 = Some (ShadeRef 0)"
  by (simp_all add: ids_get_def demo_def)

lemma demo_wire: "telnet demo = Some []" "cmds demo = [''GETLOAD 101'']"
  by (simp_all add: demo_def)

lemma demo_out0:
  "out_vid (outputs demo 0) = 101" "out_level (outputs demo 0) = 0"
  "out_ramp_sec (outputs demo 0) = (0, 0, 0)"
  by (simp_all add: demo_defs)

lemma demo_out3: "outputs demo 3 = new_output ''Lamp'' None ''LIGHT'' ''Incandescent'' None False 101"
  by (simp add: demo_def)

lemma demo_pop: "pop_cmd demo = demo\<lparr>cmds := []\<rparr>"
  by (simp add: pop_cmd_def demo_def)


subsection \<open>The empty line\<close>

text \<open>
  C10.  On the empty line \<open>_recv\<close> returns at once: no exception, and the state (pending
  queue, entities, notifications) is the one it was called with.
\<close>

theorem recv_empty_line: "recv [] s = Inr ((), s)"
  by (simp add: recv_def recv_route_def)

theorem recv_empty_line_witness:
  "outcome (recv [] demo) = Inr () \<and> final (recv [] demo) = demo"
  using recv_empty_line [of demo] by (simp add: outcome_def final_def)

subsection \<open>Rounds of the request helper\<close>













subsection \<open>Colour controllers\<close>

lemma level_to_kelvin_clamp:
  "level_to_kelvin L = max 2200 (min 6000 (2200 + L / 100 * (6000 - 2200)))"
  by (simp add: level_to_kelvin_def max_def min_def field_simps)

text \<open>
  C1, as amended.  Let an output with output type COLOR receive a one-argument update
  whose argument is the number \<open>L\<close>.  If a load \<open>l\<close> is registered in \<open>_vid_to_load\<close> under
  the controller's colour-control VID, then \<open>l\<close> is returned, its colour temperature
  becomes 2200 + L/100 * (6000 - 2200) clamped to [2200, 6000], its waiters are released,
  its level is kept, the controller (if it is another object) is unchanged, and the
  subscriber notified is the one of \<open>l\<close>.  If no load is registered, nothing is changed
  and the controller itself is returned and notified.
\<close>

theorem color_update_redirects:
  assumes "out_output_type (outputs s a) = ''COLOR''" and "py_float x = Inr L"
  defines "r \<equiv> Output_handle_update a [x] s"
    and "n \<equiv> handle_update_and_notify (OutputRef a) [x] s"
  shows
    "(color_load s a = Some l \<longrightarrow>
        outcome r = Inr (Some (OutputRef l))
        \<and> out_color_temp (outputs (final r) l) = max 2200 (min 6000 (2200 + L / 100 * (6000 - 2200)))
        \<and> events (out_query_waiters (outputs (final r) l)) = []
        \<and> fired (final r) = fired s \<union> set (events (out_query_waiters (outputs s l)))
        \<and> out_level (outputs (final r) l) = out_level (outputs s l)
        \<and> (a \<noteq> l \<longrightarrow> outputs (final r) a = outputs s a)
        \<and> outcome n = Inr ()
        \<and> notified (final n) =
            (case subscribers s (OutputRef l) of
               None \<Rightarrow> notified s
             | Some f \<Rightarrow> notified s @ [(f, OutputRef l)]))
     \<and> (color_load s a = None \<longrightarrow>
        r = Inr (Some (OutputRef a), s)
        \<and> outcome n = Inr ()
        \<and> notified (final n) =
            (case subscribers s (OutputRef a) of
               None \<Rightarrow> notified s
             | Some f \<Rightarrow> notified s @ [(f, OutputRef a)]))"
  using assms(1,2) unfolding r_def n_def
  by (simp add: Output_handle_update_def handle_update_and_notify_def and_notify_def
      notify_subscriber_def Output_notify_def RequestHelper_notify_def outcome_def final_def
      level_to_kelvin_clamp Let_def split: option.splits)

theorem color_update_redirects_witness:
  "out_output_type (outputs demo 1) = ''COLOR''
   \<and> py_float (PStr ''50'') = Inr 50
   \<and> color_load demo 1 = Some 0
   \<and> outcome (Output_handle_update 1 [PStr ''50''] demo) = Inr (Some (OutputRef 0))
   \<and> out_color_temp (outputs (final (Output_handle_update 1 [PStr ''50''] demo)) 0) = 4100
   \<and> events (out_query_waiters (outputs (final (Output_handle_update 1 [PStr ''50''] demo)) 0)) = []
   \<and> fired (final (Output_handle_update 1 [PStr ''50''] demo)) = {4}
   \<and> notified (final (handle_update_and_notify (OutputRef 1) [PStr ''50''] demo)) = [(0, OutputRef 0)]"
proof -
  have h1: "out_output_type (outputs demo 1) = ''COLOR''"
    by (simp add: demo_defs)
  have h2: "color_load demo 1 = Some 0"
    by (simp add: color_load_def demo_defs)
  have h3: "events (out_query_waiters (outputs demo 0)) = [4]" "fired demo = {}"
    "notified demo = []" "subscribers demo (OutputRef 0) = Some 0"
    by (simp_all add: demo_defs)
  show ?thesis
    using color_update_redirects [OF h1 py_float_50, of 0] h1 h2 h3
    by (simp add: py_float_50)
qed

text \<open>
  The claim as stated fails where no load is registered: the controller with VID 103 has
  no colour-control VID, and its update returns and notifies the controller itself.
\<close>

theorem color_update_unassociated_counterexample:
  "out_output_type (outputs demo 2) = ''COLOR''
   \<and> color_load demo 2 = None
   \<and> py_float (PStr ''50'') = Inr 50
   \<and> Output_handle_update 2 [PStr ''50''] demo = Inr (Some (OutputRef 2), demo)
   \<and> notified (final (handle_update_and_notify (OutputRef 2) [PStr ''50''] demo)) = [(0, OutputRef 2)]"
proof -
  have h1: "out_output_type (outputs demo 2) = ''COLOR''"
    by (simp add: demo_defs)
  have h2: "color_load demo 2 = None"
    by (simp add: color_load_def demo_defs)
  have h3: "notified demo = []" "subscribers demo (OutputRef 2) = Some 0"
    by (simp_all add: demo_defs)
  show ?thesis
    using h1 h2 h3
    by (simp add: py_float_50 Output_handle_update_def handle_update_and_notify_def
        and_notify_def notify_subscriber_def final_def)
qed

subsection \<open>The cached level of an output\<close>

text \<open>
  C7, as amended.  The code stores the level it is given and does not clamp it.  After a
  one-argument update with the number \<open>L\<close> the level of the addressed output is \<open>L\<close>
  (or, for a colour controller, what it was); after the setter is called with \<open>v\<close> the
  level is \<open>v\<close> if the setter returned and what it was if sending raised; no other
  output's level changes.  So the level stays within 0 to 100 provided it was there before
  and the value delivered or set is itself within 0 to 100.
\<close>

theorem level_follows_update:
  fixes s :: Vantage and a b :: nat and sf :: "rat \<Rightarrow> string" and v :: rat
  assumes "py_float x = Inr L"
  defines "r \<equiv> Output_handle_update a [x] s"
    and "w \<equiv> Output_set_level sf a v s"
  shows
    "out_level (outputs (final r) a) =
       (if out_output_type (outputs s a) = ''COLOR'' then out_level (outputs s a) else L)
     \<and> (b \<noteq> a \<longrightarrow> out_level (outputs (final r) b) = out_level (outputs s b))
     \<and> out_level (outputs (final w) a) = (if outcome w = Inr () then v else out_level (outputs s a))
     \<and> (b \<noteq> a \<longrightarrow> out_level (outputs (final w) b) = out_level (outputs s b))
     \<and> (0 \<le> out_level (outputs s a) \<and> out_level (outputs s a) \<le> 100
          \<and> 0 \<le> L \<and> L \<le> 100 \<and> 0 \<le> v \<and> v \<le> 100 \<longrightarrow>
        0 \<le> out_level (outputs (final r) a) \<and> out_level (outputs (final r) a) \<le> 100
        \<and> 0 \<le> out_level (outputs (final w) a) \<and> out_level (outputs (final w) a) \<le> 100)"
proof -
  have upd: "out_level (outputs (final r) a) =
       (if out_output_type (outputs s a) = ''COLOR'' then out_level (outputs s a) else L)"
    using assms(1) unfolding r_def
    by (simp add: Output_handle_update_def Output_notify_def RequestHelper_notify_def final_def
        Let_def split: option.splits)
  have upd_other: "out_level (outputs (final r) b) = out_level (outputs s b)" if "b \<noteq> a"
    using assms(1) that unfolding r_def
    by (simp add: Output_handle_update_def Output_notify_def RequestHelper_notify_def final_def
        Let_def split: option.splits)
  have setter: "out_level (outputs (final w) a) = (if outcome w = Inr () then v else out_level (outputs s a))"
    unfolding w_def
    by (simp add: Output_set_level_def send_def send_cmd_def send_ascii_nl_def final_def
        outcome_def Let_def split: option.splits sum.splits)
  have setter_other: "out_level (outputs (final w) b) = out_level (outputs s b)" if "b \<noteq> a"
    using that unfolding w_def
    by (simp add: Output_set_level_def send_def send_cmd_def send_ascii_nl_def final_def
        outcome_def Let_def split: option.splits sum.splits)
  show ?thesis
    using upd upd_other setter setter_other by simp
qed

theorem level_follows_update_witness:
  "py_float (PStr ''50'') = Inr 50
   \<and> out_level (outputs (final (Output_handle_update 0 [PStr ''50''] demo)) 0) = 50
   \<and> out_level (outputs (final (Output_handle_update 0 [PStr ''50''] demo)) 1) = 0
   \<and> outcome (Output_set_level (\<lambda>_. ''50'') 0 50 demo) = Inr ()
   \<and> out_level (outputs (final (Output_set_level (\<lambda>_. ''50'') 0 50 demo)) 0) = 50"
proof -
  have h1: "out_output_type (outputs demo 0) = ''LIGHT''" "out_level (outputs demo 0) = 0"
    "out_level (outputs demo 1) = 0"
    by (simp_all add: demo_defs)
  have h2: "outcome (Output_set_level (\<lambda>_. ''50'') 0 50 demo) = Inr ()"
    by (simp add: Output_set_level_def send_def send_cmd_def send_ascii_nl_def outcome_def
        demo_out0 demo_limit demo_wire str_int_demo)
  show ?thesis
    using level_follows_update [OF py_float_50, of 0 demo 1 "\<lambda>_. ''50''" 50] h1 h2
    by (simp add: py_float_50)
qed

text \<open>
  The claim as stated fails: the load with VID 101 has level 0, and the update 150, as
  well as the setter called with 150, leaves it at 150.
\<close>

theorem level_out_of_range_counterexample:
  "0 \<le> out_level (outputs demo 0) \<and> out_level (outputs demo 0) \<le> 100
   \<and> outcome (recv ''S:LOAD 101 150'' demo) = Inr ()
   \<and> out_level (outputs (final (recv ''S:LOAD 101 150'' demo)) 0) = 150
   \<and> outcome (Output_set_level (\<lambda>_. ''150'') 0 150 demo) = Inr ()
   \<and> out_level (outputs (final (Output_set_level (\<lambda>_. ''150'') 0 150 demo)) 0) = 150"
proof -
  have route: "recv_route ''S:LOAD 101 150'' demo = Deliver (OutputRef 0) [PStr ''150''] demo"
    by (simp add: recv_route_def recv_lookup_def s_cmds_def demo_vids demo_limit demo_ids
        Let_def)
  have h1: "out_output_type (outputs demo 0) = ''LIGHT''" "out_level (outputs demo 0) = 0"
    by (simp_all add: demo_defs)
  have upd: "outcome (recv ''S:LOAD 101 150'' demo) = Inr ()
      \<and> out_level (outputs (final (recv ''S:LOAD 101 150'' demo)) 0) = 150"
    using h1
    by (simp add: recv_def route handle_update_and_notify_def and_notify_def
        notify_subscriber_def Output_handle_update_def py_float_150 Output_notify_def
        RequestHelper_notify_def outcome_def final_def split: option.splits)
  have setter: "outcome (Output_set_level (\<lambda>_. ''150'') 0 150 demo) = Inr ()
      \<and> out_level (outputs (final (Output_set_level (\<lambda>_. ''150'') 0 150 demo)) 0) = 150"
    by (simp add: Output_set_level_def send_def send_cmd_def send_ascii_nl_def outcome_def
        final_def demo_out0 demo_limit demo_wire str_int_demo)
  show ?thesis
    using h1 upd setter by simp
qed

subsection \<open>Buttons and keypads\<close>




subsection \<open>Which lines reach an entity\<close>

lemma ids_pop_cmd: "ids_get (pop_cmd s) = ids_get s" "ids (pop_cmd s) = ids s"
  "int_max_str_digits (pop_cmd s) = int_max_str_digits s"
  by (simp_all add: pop_cmd_def ids_get_def fun_eq_iff split: list.splits)

lemma recv_lookup_dropped:
  "\<not> isdigit vid \<or> ids s (Some c) = None
   \<or> (\<exists>v. int_of_string (int_max_str_digits s) vid = Inr v \<and> ids_get s (Some c) v = None) \<Longrightarrow>
   recv_lookup tp c vid args s = Dropped s"
  by (auto simp: recv_lookup_def ids_get_def split: option.splits)


lemma recv_lookup_raised:
  "recv_lookup tp c vid args s = Raised e s' \<longleftrightarrow>
     ids s (Some c) \<noteq> None \<and> isdigit vid
     \<and> int_of_string (int_max_str_digits s) vid = Inl e \<and> s' = s"
  by (auto simp: recv_lookup_def split: option.splits sum.splits)

lemma get_types_distinct:
  "c \<in> set [''GETLOAD'', ''GETPOWER'', ''GETCURRENT'', ''GETSENSOR'', ''GETLIGHT''] \<Longrightarrow>
   c \<noteq> ''GETBLIND'' \<and> c \<noteq> ''TASK''"
  by auto

lemma fixed_types:
  "''GETBLIND'' \<notin> set [''GETLOAD'', ''GETPOWER'', ''GETCURRENT'', ''GETSENSOR'', ''GETLIGHT'']"
  "''TASK'' \<notin> set [''GETLOAD'', ''GETPOWER'', ''GETCURRENT'', ''GETSENSOR'', ''GETLIGHT'']"
  "''GETBLIND'' \<notin> set [''STATUS'', ''ADDSTATUS'', ''DELSTATUS'', ''INVOKE'', ''GETCUSTOM'',
      ''RAMPLOAD'', ''GETTEMPERATURE'']"
  "''TASK'' \<notin> set [''STATUS'', ''ADDSTATUS'', ''DELSTATUS'', ''INVOKE'', ''GETCUSTOM'',
      ''RAMPLOAD'', ''GETTEMPERATURE'']"
  "''ERROR'' \<notin> set [''STATUS'', ''ADDSTATUS'', ''DELSTATUS'', ''INVOKE'', ''GETCUSTOM'',
      ''RAMPLOAD'', ''GETTEMPERATURE'']"
  "''LOGIN'' \<notin> set [''STATUS'', ''ADDSTATUS'', ''DELSTATUS'', ''INVOKE'', ''GETCUSTOM'',
      ''RAMPLOAD'', ''GETTEMPERATURE'']"
  "''ERROR'' \<notin> set [''GETLOAD'', ''GETPOWER'', ''GETCURRENT'', ''GETSENSOR'', ''GETLIGHT'']"
  "''LOGIN'' \<notin> set [''GETLOAD'', ''GETPOWER'', ''GETCURRENT'', ''GETSENSOR'', ''GETLIGHT'']"
  by simp_all

text \<open>
  A line with a command type and a VID token either returns before the lookup or is
  decided by the lookup under the canonical type.
\<close>

lemma recv_route_tokens:
  fixes s :: Vantage and line cmd_type vid :: string and args :: "string list"
  defines "s1 \<equiv> (if hd line = CHR ''R'' then pop_cmd s else s)"
  assumes "line \<noteq> []" "hd line = CHR ''R'' \<or> hd line = CHR ''S''"
    "re_split (drop 2 line) = cmd_type # vid # args"
  shows "recv_route line s =
           (if reaches_lookup (hd line) cmd_type
            then recv_lookup (hd line) (canonical_type cmd_type) vid args s1
            else Dropped s1)"
proof (cases "hd line = CHR ''R''")
  case True
  then show ?thesis
    using assms(2,4) get_types_distinct [of cmd_type] unfolding s1_def
    by (cases "cmd_type \<in> set [''GETLOAD'', ''GETPOWER'', ''GETCURRENT'', ''GETSENSOR'', ''GETLIGHT'']")
      (simp_all add: recv_route_def Let_def reaches_lookup_def canonical_type_def fixed_types
        del: list.set)
next
  case False
  with assms(3) have "hd line = CHR ''S''" by simp
  then show ?thesis
    using assms(2,4) get_types_distinct [of cmd_type] unfolding s1_def
    by (cases "cmd_type \<in> set [''GETLOAD'', ''GETPOWER'', ''GETCURRENT'', ''GETSENSOR'', ''GETLIGHT'']")
      (simp_all add: recv_route_def Let_def reaches_lookup_def canonical_type_def fixed_types
        del: list.set)
qed






subsection \<open>Exceptions in the dispatcher\<close>

lemma outcome_and_notify: "outcome (and_notify r) = map_sum id (\<lambda>_. ()) (outcome r)"
  by (cases r) (auto simp: and_notify_def outcome_def)

lemma recv_route_short:
  "length (re_split (drop 2 line)) < 2 \<Longrightarrow> line \<noteq> [] \<Longrightarrow>
   hd line = CHR ''R'' \<or> hd line = CHR ''S'' \<Longrightarrow>
   recv_route line s = Raised IndexError (if hd line = CHR ''R'' then pop_cmd s else s)"
  by (cases "re_split (drop 2 line)"; cases "tl (re_split (drop 2 line))")
    (auto simp: recv_route_def Let_def)

lemma recv_route_outside:
  "line = [] \<or> (hd line \<noteq> CHR ''R'' \<and> hd line \<noteq> CHR ''S'') \<Longrightarrow> recv_route line s = Dropped s"
  by (auto simp: recv_route_def)

text \<open>When \<open>_recv\<close> raises before it reaches an entity.\<close>

lemma recv_route_raised:
  "(\<exists>s'. recv_route line s = Raised e s') \<longleftrightarrow>
     (line \<noteq> [] \<and> (hd line = CHR ''R'' \<or> hd line = CHR ''S'')
        \<and> length (re_split (drop 2 line)) < 2 \<and> e = IndexError)
     \<or> (\<exists>c v as. line \<noteq> [] \<and> (hd line = CHR ''R'' \<or> hd line = CHR ''S'')
           \<and> re_split (drop 2 line) = c # v # as
           \<and> reaches_lookup (hd line) c
           \<and> ids s (Some (canonical_type c)) \<noteq> None
           \<and> isdigit v \<and> int_of_string (int_max_str_digits s) v = Inl e)"
proof (cases "line \<noteq> [] \<and> (hd line = CHR ''R'' \<or> hd line = CHR ''S'')")
  case False
  then show ?thesis
    using recv_route_outside [of line s] by auto
next
  case True
  then have l1: "line \<noteq> []" and l2: "hd line = CHR ''R'' \<or> hd line = CHR ''S''"
    by simp_all
  show ?thesis
  proof (cases "length (re_split (drop 2 line)) < 2")
    case True
    then have "\<And>c v as. re_split (drop 2 line) \<noteq> c # v # as"
      by auto
    then show ?thesis
      using recv_route_short [OF True l1 l2, of s] True l1 l2 by auto
  next
    case False
    then obtain c v as where tk: "re_split (drop 2 line) = c # v # as"
      by (cases "re_split (drop 2 line)"; cases "tl (re_split (drop 2 line))") auto
    show ?thesis
      using l1 l2 False
      by (simp add: recv_route_tokens [OF l1 l2 tk] tk recv_lookup_raised ids_pop_cmd
          del: list.set)
  qed
qed

lemma recv_raises:
  "outcome (recv line s) = Inl e \<longleftrightarrow>
     (\<exists>s'. recv_route line s = Raised e s')
     \<or> (\<exists>obj as s'. recv_route line s = Deliver obj as s'
           \<and> outcome (handle_update obj as s') = Inl e)"
proof (cases "recv_route line s")
  case (Raised e' s')
  then show ?thesis by (auto simp: recv_def outcome_def)
next
  case (Dropped s')
  then show ?thesis by (auto simp: recv_def outcome_def)
next
  case (Deliver obj as s')
  then show ?thesis
    by (cases "outcome (handle_update obj as s')")
      (auto simp: recv_def handle_update_and_notify_def outcome_and_notify)
qed

text \<open>
  C6, as amended.  \<open>_recv\<close> has no exception handler.  It returns normally, leaving the
  state as it was up to the popped pending command of an R line, for the empty line and
  for a line with an unknown first character, and for a line with a command type and a
  VID token whose command type is not in the list for its kind of line, whose VID token
  does not pass \<open>isdigit()\<close>, whose canonical type has no dictionary in the registry, or
  whose VID token is converted by \<open>int\<close> to a VID that is not registered under the
  canonical type.  An exception leaves \<open>_recv\<close> in exactly three cases: the line has no
  VID token (\<open>IndexError\<close>); the line gets as far as the lookup, its canonical type has
  a dictionary, and the VID token passes \<open>isdigit()\<close> but is refused by \<open>int\<close>
  (\<open>ValueError\<close>: more digits than the interpreter's limit, or a superscript digit);
  or the \<open>handle_update\<close> of the entity reached raises.  What a subscriber's handler
  does when it is called is code of the caller and outside the model.  The marker
  \<open>NonFinite\<close>, with which \<open>handle_update\<close> stops at an argument such as \<open>inf\<close>
  or \<open>nan\<close>, is passed on in the same way; it stands for a float outside the model, not
  for an exception of the code.
\<close>

theorem recv_drops_protocol_faults:
  fixes s :: Vantage and line cmd_type vid :: string and args :: "string list"
  defines "s1 \<equiv> (if hd line = CHR ''R'' then pop_cmd s else s)"
    and "mx \<equiv> int_max_str_digits s"
  shows
    "(line = [] \<or> (hd line \<noteq> CHR ''R'' \<and> hd line \<noteq> CHR ''S'') \<longrightarrow> recv line s = Inr ((), s))
     \<and> (line \<noteq> [] \<and> (hd line = CHR ''R'' \<or> hd line = CHR ''S'')
          \<and> re_split (drop 2 line) = cmd_type # vid # args
          \<and> (cmd_type \<notin> set (if hd line = CHR ''R'' then r_cmds else s_cmds)
               \<or> \<not> isdigit vid
               \<or> ids s (Some (canonical_type cmd_type)) = None
               \<or> (\<exists>v. int_of_string mx vid = Inr v
                      \<and> ids_get s (Some (canonical_type cmd_type)) v = None))
        \<longrightarrow> recv line s = Inr ((), s1))
     \<and> s1\<lparr>cmds := cmds s\<rparr> = s
     \<and> (outcome (recv line s) = Inl e \<longleftrightarrow>
          (line \<noteq> [] \<and> (hd line = CHR ''R'' \<or> hd line = CHR ''S'')
             \<and> length (re_split (drop 2 line)) < 2 \<and> e = IndexError)
          \<or> (\<exists>c v as. line \<noteq> [] \<and> (hd line = CHR ''R'' \<or> hd line = CHR ''S'')
                \<and> re_split (drop 2 line) = c # v # as
                \<and> reaches_lookup (hd line) c
                \<and> ids s (Some (canonical_type c)) \<noteq> None
                \<and> isdigit v \<and> int_of_string mx v = Inl e)
          \<or> (\<exists>obj as s'. recv_route line s = Deliver obj as s'
                \<and> outcome (handle_update obj as s') = Inl e))"
proof -
  have a: "line = [] \<or> (hd line \<noteq> CHR ''R'' \<and> hd line \<noteq> CHR ''S'') \<longrightarrow> recv line s = Inr ((), s)"
    by (auto simp: recv_def recv_route_def)
  have b: "line \<noteq> [] \<and> (hd line = CHR ''R'' \<or> hd line = CHR ''S'')
          \<and> re_split (drop 2 line) = cmd_type # vid # args
          \<and> (cmd_type \<notin> set (if hd line = CHR ''R'' then r_cmds else s_cmds)
               \<or> \<not> isdigit vid
               \<or> ids s (Some (canonical_type cmd_type)) = None
               \<or> (\<exists>v. int_of_string mx vid = Inr v
                      \<and> ids_get s (Some (canonical_type cmd_type)) v = None))
        \<longrightarrow> recv line s = Inr ((), s1)"
  proof
    assume h: "line \<noteq> [] \<and> (hd line = CHR ''R'' \<or> hd line = CHR ''S'')
          \<and> re_split (drop 2 line) = cmd_type # vid # args
          \<and> (cmd_type \<notin> set (if hd line = CHR ''R'' then r_cmds else s_cmds)
               \<or> \<not> isdigit vid
               \<or> ids s (Some (canonical_type cmd_type)) = None
               \<or> (\<exists>v. int_of_string mx vid = Inr v
                      \<and> ids_get s (Some (canonical_type cmd_type)) v = None))"
    note h1 = h [THEN conjunct1]
      and h2 = h [THEN conjunct2, THEN conjunct1]
      and h3 = h [THEN conjunct2, THEN conjunct2, THEN conjunct1]
      and h4 = h [THEN conjunct2, THEN conjunct2, THEN conjunct2]
    note route = recv_route_tokens [OF h1 h2 h3, of s, folded s1_def]
    have "recv_route line s = Dropped s1"
    proof (cases "reaches_lookup (hd line) cmd_type")
      case False
      then show ?thesis by (simp add: route)
    next
      case True
      then have "cmd_type \<in> set (if hd line = CHR ''R'' then r_cmds else s_cmds)"
        by (simp add: reaches_lookup_def del: list.set)
      with h4 have "\<not> isdigit vid
               \<or> ids s (Some (canonical_type cmd_type)) = None
               \<or> (\<exists>v. int_of_string mx vid = Inr v
                      \<and> ids_get s (Some (canonical_type cmd_type)) v = None)"
        by (elim disjE) simp_all
      then have "\<not> isdigit vid
               \<or> ids s1 (Some (canonical_type cmd_type)) = None
               \<or> (\<exists>v. int_of_string (int_max_str_digits s1) vid = Inr v
                      \<and> ids_get s1 (Some (canonical_type cmd_type)) v = None)"
        by (simp add: s1_def ids_pop_cmd mx_def)
      from recv_lookup_dropped [OF this] True show ?thesis
        by (simp add: route)
    qed
    then show "recv line s = Inr ((), s1)"
      by (simp add: recv_def)
  qed
  have frame: "s1\<lparr>cmds := cmds s\<rparr> = s"
    by (simp add: s1_def pop_cmd_def split: list.splits)
  have c: "outcome (recv line s) = Inl e \<longleftrightarrow>
          (line \<noteq> [] \<and> (hd line = CHR ''R'' \<or> hd line = CHR ''S'')
             \<and> length (re_split (drop 2 line)) < 2 \<and> e = IndexError)
          \<or> (\<exists>c v as. line \<noteq> [] \<and> (hd line = CHR ''R'' \<or> hd line = CHR ''S'')
                \<and> re_split (drop 2 line) = c # v # as
                \<and> reaches_lookup (hd line) c
                \<and> ids s (Some (canonical_type c)) \<noteq> None
                \<and> isdigit v \<and> int_of_string mx v = Inl e)
          \<or> (\<exists>obj as s'. recv_route line s = Deliver obj as s'
                \<and> outcome (handle_update obj as s') = Inl e)"
    unfolding recv_raises recv_route_raised mx_def by (simp only: disj_assoc)
  show ?thesis
    by (rule conjI [OF a conjI [OF b conjI [OF frame c]]])
qed

text \<open>A status line whose VID token has 4301 digits, one more than the limit.\<close>

lemma re_split_word:
  "list_all (\<lambda>c. c \<noteq> CHR '' '' \<and> c \<noteq> CHR '':'') w \<Longrightarrow>
   re_split (w @ CHR '' '' # rest) = w # re_split rest"
  by (induction w) simp_all

lemma isdigit_replicate: "isdigit (replicate n c) \<longleftrightarrow> 0 < n \<and> is_digit_like c"
  by (auto simp: isdigit_def list_all_iff)

lemma digitpart_replicate: "is_digit c \<Longrightarrow> c \<noteq> CHR ''_'' \<Longrightarrow> digitpart (replicate (Suc n) c)"
  by (induction n) simp_all

lemma int_of_string_long:
  assumes "0 < mx" "mx < n"
  shows "int_of_string mx (replicate n (CHR ''1'')) = Inl ValueError"
proof -
  from assms obtain m where n: "n = Suc m" by (cases n) auto
  have d: "is_digit (CHR ''1'')" "\<not> is_space (CHR ''1'')"
    by (simp_all add: is_digit_def is_space_def)
  have "strip (replicate n (CHR ''1'')) = replicate n (CHR ''1'')"
    by (simp add: strip_def d)
  moreover have "split_sign (replicate n (CHR ''1'')) = (False, replicate n (CHR ''1''))"
    by (simp add: split_sign_def n)
  moreover have "digitpart (replicate n (CHR ''1''))"
    unfolding n by (rule digitpart_replicate) (simp_all add: d)
  moreover have "length (digits_of (replicate n (CHR ''1''))) = n"
    by (simp add: digits_of_def d)
  ultimately show ?thesis
    using assms by (simp add: int_of_string_def)
qed

lemma long_line:
  "re_split (''LOAD '' @ replicate 4301 (CHR ''1'') @ '' 5'')
     = [''LOAD'', replicate 4301 (CHR ''1''), ''5'']"
  "isdigit (replicate 4301 (CHR ''1''))"
  "int_of_string 4300 (replicate 4301 (CHR ''1'')) = Inl ValueError"
  "re_split (replicate 4301 (CHR ''1'') @ '' 5'') = [replicate 4301 (CHR ''1''), ''5'']"
  by (simp_all add: re_split_word isdigit_replicate int_of_string_long list_all_iff
      is_digit_like_def is_digit_def)

theorem recv_drops_protocol_faults_witness:
  "recv ''X:LOAD 101 5'' demo = Inr ((), demo)
   \<and> recv ''S:FOO 101 5'' demo = Inr ((), demo)
   \<and> recv ''S:LOAD abc 5'' demo = Inr ((), demo)
   \<and> recv ''S:LOAD 999 5'' demo = Inr ((), demo)
   \<and> recv ''R:LOAD 999 5'' demo = Inr ((), pop_cmd demo)
   \<and> outcome (recv ''S:LOAD'' demo) = Inl IndexError
   \<and> outcome (recv (''S:LOAD '' @ replicate 4301 (CHR ''1'') @ '' 5'') demo) = Inl ValueError"
  using recv_drops_protocol_faults [where line = "''X:LOAD 101 5''" and s = demo]
    recv_drops_protocol_faults [where line = "''S:FOO 101 5''" and s = demo
      and cmd_type = "''FOO''" and vid = "''101''" and args = "[''5'']"]
    recv_drops_protocol_faults [where line = "''S:LOAD abc 5''" and s = demo
      and cmd_type = "''LOAD''" and vid = "''abc''" and args = "[''5'']"]
    recv_drops_protocol_faults [where line = "''S:LOAD 999 5''" and s = demo
      and cmd_type = "''LOAD''" and vid = "''999''" and args = "[''5'']"]
    recv_drops_protocol_faults [where line = "''R:LOAD 999 5''" and s = demo
      and cmd_type = "''LOAD''" and vid = "''999''" and args = "[''5'']"]
    recv_drops_protocol_faults [where line = "''S:LOAD''" and s = demo and e = IndexError]
    recv_drops_protocol_faults [where line = "''S:LOAD '' @ replicate 4301 (CHR ''1'') @ '' 5''"
      and s = demo and e = ValueError and cmd_type = "''LOAD''"
      and vid = "replicate 4301 (CHR ''1'')" and args = "[''5'']"]
  by (simp add: r_cmds_def s_cmds_def canonical_type_def reaches_lookup_def demo_vids demo_limit
      demo_ids demo_ids_get long_line)

text \<open>
  The claim as stated fails: a non-numeric argument for a variable, a load, a shade or a
  light sensor raises \<open>ValueError\<close> out of \<open>_recv\<close>, a line without a VID token or a
  shade position without its number raises \<open>IndexError\<close>, and a VID token of 4301 digits
  raises \<open>ValueError\<close> at \<open>int(vid)\<close> under the limit of 4300 digits.
\<close>

theorem recv_raises_counterexample:
  "outcome (recv ''S:VARIABLE 5 abc'' demo) = Inl ValueError
   \<and> outcome (recv ''S:LOAD 101 abc'' demo) = Inl ValueError
   \<and> outcome (recv ''S:BLIND 50 abc'' demo) = Inl ValueError
   \<and> outcome (recv ''R:GETLIGHT 60 abc'' demo) = Inl ValueError
   \<and> outcome (recv ''S:BLIND 50 POS'' demo) = Inl IndexError
   \<and> outcome (recv ''S:LOAD'' demo) = Inl IndexError
   \<and> outcome (recv (''S:LOAD '' @ replicate 4301 (CHR ''1'') @ '' 5'') demo) = Inl ValueError"
proof -
  have r1: "recv_route ''S:VARIABLE 5 abc'' demo = Deliver (VariableRef 0) [PStr ''abc''] demo"
    by (simp add: recv_route_def recv_lookup_def s_cmds_def demo_vids demo_limit demo_ids Let_def)
  have r2: "recv_route ''S:LOAD 101 abc'' demo = Deliver (OutputRef 0) [PStr ''abc''] demo"
    by (simp add: recv_route_def recv_lookup_def s_cmds_def demo_vids demo_limit demo_ids Let_def)
  have r3: "recv_route ''S:BLIND 50 abc'' demo = Deliver (ShadeRef 0) [PStr ''abc''] demo"
    by (simp add: recv_route_def recv_lookup_def s_cmds_def demo_vids demo_limit demo_ids Let_def)
  have r4: "recv_route ''R:GETLIGHT 60 abc'' demo
      = Deliver (SensorRef 0) [PStr ''abc''] (pop_cmd demo)"
    by (simp add: recv_route_def recv_lookup_def r_cmds_def demo_vids demo_limit demo_ids Let_def
        demo_pop)
  have r5: "recv_route ''S:BLIND 50 POS'' demo = Deliver (ShadeRef 0) [PStr ''POS''] demo"
    by (simp add: recv_route_def recv_lookup_def s_cmds_def demo_vids demo_limit demo_ids Let_def)
  have r6: "recv_route ''S:LOAD'' demo = Raised IndexError demo"
    by (simp add: recv_route_def Let_def)
  have r7: "recv_route (''S:LOAD '' @ replicate 4301 (CHR ''1'') @ '' 5'') demo
      = Raised ValueError demo"
    by (simp add: recv_route_def recv_lookup_def s_cmds_def long_line demo_limit demo_ids Let_def)
  show ?thesis
    by (simp add: recv_def r1 r2 r3 r4 r5 r6 r7 handle_update_and_notify_def and_notify_def
        Variable_handle_update_def Output_handle_update_def Shade_handle_update_def
        PollingSensor_handle_update_def py_float_abc outcome_def del: append.simps)
qed

subsection \<open>Duplicate registration\<close>

lemma setdefault_ids_get: "ids_get (snd (setdefault_ids k s)) k' v = ids_get s k' v"
  by (simp add: setdefault_ids_def ids_get_def split: option.splits)

lemma setdefault_fst: "fst (setdefault_ids k s) v = ids_get s k v"
  by (simp add: setdefault_ids_def ids_get_def split: option.splits)

lemma setdefault_present: "ids (snd (setdefault_ids k s)) k \<noteq> None"
  by (simp add: setdefault_ids_def split: option.splits)

lemma setdefault_keeps: "ids s k' \<noteq> None \<Longrightarrow> ids (snd (setdefault_ids k s)) k' \<noteq> None"
  by (simp add: setdefault_ids_def split: option.splits)

lemma setdefault_obj_vid: "obj_vid (snd (setdefault_ids k s)) obj = obj_vid s obj"
  by (cases obj) (simp_all add: setdefault_ids_def split: option.splits)

lemma setdefault_limit: "int_max_str_digits (snd (setdefault_ids k s)) = int_max_str_digits s"
  by (simp add: setdefault_ids_def split: option.splits)

lemma str_int_error: "str_int mx i = Inl e \<Longrightarrow> e = ValueError"
  by (simp add: str_int_def split: if_splits)

lemma register_names_error: "outcome (register_names obj s) = Inl e \<Longrightarrow> e = ValueError"
  by (auto simp: register_names_def outcome_def Let_def dest: str_int_error
      split: if_splits sum.splits)

text \<open>
  \<open>register_id\<close> raises the duplicate-VID error exactly when the VID is already in the
  dictionary of \<open>cmd_type2\<close> (and \<open>str\<close> prints the VID for the message); the
  dictionary of \<open>cmd_type\<close> plays no part in the test.
\<close>

lemma register_id_raises:
  "outcome (register_id cmd_type cmd_type2 obj s) = Inl VIDExistsError \<longleftrightarrow>
     ids_get s cmd_type2 (obj_vid s obj) \<noteq> None
     \<and> (\<exists>v. str_int (int_max_str_digits s) (obj_vid s obj) = Inr v)"
proof -
  obtain ids0 s1 where a: "setdefault_ids (Some cmd_type) s = (ids0, s1)"
    by (cases "setdefault_ids (Some cmd_type) s")
  obtain ids1 s2 where b: "setdefault_ids cmd_type2 s1 = (ids1, s2)"
    by (cases "setdefault_ids cmd_type2 s1")
  have s1: "s1 = snd (setdefault_ids (Some cmd_type) s)" using a by simp
  have s2: "s2 = snd (setdefault_ids cmd_type2 s1)" using b by simp
  have ids1: "ids1 = fst (setdefault_ids cmd_type2 s1)" using b by simp
  have vid: "obj_vid s2 obj = obj_vid s obj"
    by (simp add: s1 s2 setdefault_obj_vid)
  have mx: "int_max_str_digits s2 = int_max_str_digits s"
    by (simp add: s1 s2 setdefault_limit)
  have dup: "ids1 (obj_vid s2 obj) = ids_get s cmd_type2 (obj_vid s obj)"
    by (simp add: vid ids1 setdefault_fst s1 setdefault_ids_get)
  have p1: "ids s2 (Some cmd_type) \<noteq> None"
    unfolding s2 s1 by (intro setdefault_keeps setdefault_present)
  show ?thesis
  proof (cases "ids_get s cmd_type2 (obj_vid s obj) \<noteq> None")
    case True
    then show ?thesis
      using dup str_int_error [of "int_max_str_digits s" "obj_vid s obj"]
      by (auto simp: register_id_def a b outcome_def vid mx split: sum.splits)
  next
    case False
    have "outcome (register_id cmd_type cmd_type2 obj s) \<noteq> Inl VIDExistsError"
      using False dup p1 register_names_error [of obj _ VIDExistsError]
      by (auto simp: register_id_def a b ids_store_def outcome_def
          split: option.splits sum.splits if_splits)
    with False show ?thesis by simp
  qed
qed

text \<open>
  C5, the code at the failing input.  VID 101 is registered under LOAD for the object at
  address 0.  Registering the object at address 3, whose VID is 101 too, under LOAD with
  \<open>cmd_type2 = None\<close> raises nothing and replaces the entry, where the claim (and the
  docstring of \<open>VIDExistsError\<close>) asks for the duplicate-VID error.
\<close>

theorem register_duplicate_not_rejected:
  "ids_get demo (Some ''LOAD'') 101 = Some (OutputRef 0)
   \<and> obj_vid demo (OutputRef 3) = 101
   \<and> outcome (register_id ''LOAD'' None (OutputRef 3) demo) = Inr ()
   \<and> ids_get (final (register_id ''LOAD'' None (OutputRef 3) demo)) (Some ''LOAD'') 101
       = Some (OutputRef 3)"
proof -
  have v: "out_vid (outputs demo 3) = 101"
    by (simp add: demo_out3 new_output_def)
  have o: "outcome (register_id ''LOAD'' None (OutputRef 3) demo) = Inr ()"
    by (simp add: register_id_def setdefault_ids_def demo_ids ids_store_def v outcome_def
        register_names_def ids_get_def Let_def demo_limit str_int_demo)
  have f: "ids_get (final (register_id ''LOAD'' None (OutputRef 3) demo)) (Some ''LOAD'') 101
       = Some (OutputRef 3)"
    by (simp add: register_id_def setdefault_ids_def demo_ids ids_store_def v final_def
        register_names_def ids_get_def Let_def demo_limit str_int_demo)
  show ?thesis
    using v o f by (simp add: demo_ids_get)
qed

theorem register_duplicate_not_rejected_witness:
  "outcome (register_id ''LOAD'' None (OutputRef 3) demo) \<noteq> Inl VIDExistsError
   \<and> ids_get (final (register_id ''LOAD'' None (OutputRef 3) demo)) (Some ''LOAD'') 101
       \<noteq> ids_get demo (Some ''LOAD'') 101"
  using register_duplicate_not_rejected by simp

subsection \<open>Text values of variables\<close>

text \<open>
  C8, the code at the failing input.  The text \<open>a"b\<close> is not numeric and contains a double
  quote, yet \<open>set_variable_vid\<close> raises nothing and writes \<open>VARIABLE 5 "a"b"\<close> to the
  session; the same holds for a newline inside the text.  Only a text that starts with
  one of the three characters is rejected, because the pattern is applied with \<open>match\<close>.
\<close>

theorem quote_inside_text_is_sent:
  "CHR 0x22 \<in> set [CHR ''a'', CHR 0x22, CHR ''b'']
   \<and> \<not> num_match [CHR ''a'', CHR 0x22, CHR ''b'']
   \<and> outcome (set_variable_vid 5 (PStr [CHR ''a'', CHR 0x22, CHR ''b'']) demo) = Inr ()
   \<and> telnet (final (set_variable_vid 5 (PStr [CHR ''a'', CHR 0x22, CHR ''b'']) demo))
       = Some [''VARIABLE 5 '' @ [CHR 0x22, CHR ''a'', CHR 0x22, CHR ''b'', CHR 0x22, CHR 0x0D, CHR 0x0A]]
   \<and> outcome (set_variable_vid 5 (PStr [CHR ''a'', CHR 0x0A, CHR ''b'']) demo) = Inr ()
   \<and> outcome (set_variable_vid 5 (PStr [CHR 0x22, CHR ''a'', CHR ''b'']) demo) = Inl TextException"
  by (simp add: set_variable_vid_def num_match_def p_match_def is_digit_def send_cmd_def
      send_ascii_nl_def demo_wire demo_limit str_int_demo outcome_def final_def)

theorem quote_inside_text_is_sent_witness:
  "outcome (set_variable_vid 5 (PStr [CHR ''a'', CHR 0x22, CHR ''b'']) demo) \<noteq> Inl TextException"
  using quote_inside_text_is_sent by simp

end
